theory Spec2Isabelle
  imports Complex_Main
begin

section \<open>Data model of app.py\<close>

text \<open>
  The sheet holds one row per task under twelve fixed columns. \<open>load_data\<close> adds three
  derived columns (\<open>PROGRESS_NUM\<close>, \<open>START\<close>, \<open>END\<close>), which \<open>save_data\<close> drops again.
  A DataFrame is the list of its rows in index order. Text cells are strings, the two
  money columns are integers.
\<close>

text \<open>The column \<open>TYPE\<close> is named \<open>TASK_TYPE\<close>: \<open>TYPE\<close> is reserved syntax.\<close>

record raw_row =
  PROJECT :: string
  TASK_ID :: string
  TASK_NAME :: string
  TASK_TYPE :: string
  ASSIGNED_TO :: string
  START_DATE :: string
  END_DATE :: string
  PROGRESS :: string
  STATUS :: string
  PRIORITY :: string
  BUDGET :: int
  ACTUAL_COST :: int

text \<open>
  A float64 cell: either NaN or a number. A number is taken as the rational it denotes;
  the rounding of binary64 arithmetic and the infinities are not modelled.
\<close>

datatype pyfloat = NaN | Num rat

text \<open>A parsed date (year, month, day); \<open>None\<close> is pandas' NaT.\<close>

type_synonym timestamp = "nat \<times> nat \<times> nat"

record row = raw_row +
  PROGRESS_NUM :: pyfloat
  START :: "timestamp option"
  END :: "timestamp option"

type_synonym sheet_rows = "raw_row list"
type_synonym dataframe = "row list"

section \<open>The pandas operations the program uses\<close>

text \<open>\<open>df[col] == v\<close>, \<open>df[col] != v\<close>, \<open>df[col].isin(vs)\<close> and \<open>m1 & m2\<close>: boolean Series.\<close>

definition col_eq :: "('r \<Rightarrow> 'a) \<Rightarrow> 'a \<Rightarrow> 'r list \<Rightarrow> bool list" where
  "col_eq col v df = map (\<lambda>r. col r = v) df"

definition col_ne :: "('r \<Rightarrow> 'a) \<Rightarrow> 'a \<Rightarrow> 'r list \<Rightarrow> bool list" where
  "col_ne col v df = map (\<lambda>r. col r \<noteq> v) df"

definition isin :: "('r \<Rightarrow> 'a) \<Rightarrow> 'a list \<Rightarrow> 'r list \<Rightarrow> bool list" where
  "isin col vs df = map (\<lambda>r. col r \<in> set vs) df"

definition mask_and :: "bool list \<Rightarrow> bool list \<Rightarrow> bool list" where
  "mask_and m1 m2 = map (\<lambda>(a, b). a \<and> b) (zip m1 m2)"

text \<open>\<open>df[mask]\<close>: the rows whose mask entry is true, in index order.\<close>

definition bool_index :: "'r list \<Rightarrow> bool list \<Rightarrow> 'r list" where
  "bool_index df msk = map fst (filter snd (zip df msk))"

text \<open>\<open>df.loc[mask, col] = v\<close>: every row whose mask entry is true gets the new cell.\<close>

definition loc_set :: "bool list \<Rightarrow> ('r \<Rightarrow> 'r) \<Rightarrow> 'r list \<Rightarrow> 'r list" where
  "loc_set msk upd df = map (\<lambda>(r, b). if b then upd r else r) (zip df msk)"

section \<open>Library functions the program calls\<close>

text \<open>
  Python's \<open>float(s)\<close> (\<open>None\<close> is its ValueError), \<open>str(x)\<close> of a float and
  \<open>pd.to_datetime(s, format='%d/%m/%Y', errors='coerce')\<close> on one cell are library code,
  not code of this program: the program's functions take them as the parameter \<open>L\<close>.
\<close>

record pylib =
  py_float :: "string \<Rightarrow> pyfloat option"
  float_str :: "pyfloat \<Rightarrow> string"
  to_datetime :: "string \<Rightarrow> timestamp option"

text \<open>\<open>s.rstrip('%')\<close>: every trailing occurrence of the character is removed.\<close>

definition rstrip :: "char \<Rightarrow> string \<Rightarrow> string" where
  "rstrip c s = rev (dropWhile (\<lambda>x. x = c) (rev s))"

text \<open>\<open>Series.astype(float)\<close>: raises as soon as one cell does not parse.\<close>

fun astype_float :: "pylib \<Rightarrow> string list \<Rightarrow> pyfloat list option" where
  "astype_float L [] = Some []"
| "astype_float L (s # ss) =
     (case py_float L s of
        None \<Rightarrow> None
      | Some x \<Rightarrow> (case astype_float L ss of None \<Rightarrow> None | Some xs \<Rightarrow> Some (x # xs)))"

text \<open>\<open>f"{n}"\<close> of a Python int: its decimal digits.\<close>

definition digit_char :: "nat \<Rightarrow> char" where
  "digit_char d = ''0123456789'' ! d"

function str_nat :: "nat \<Rightarrow> string" where
  "str_nat n = (if n < 10 then [digit_char n] else str_nat (n div 10) @ [digit_char (n mod 10)])"
  by pat_completeness auto
termination
  by (relation "measure id") auto

declare str_nat.simps [simp del]

definition str_int :: "int \<Rightarrow> string" where
  "str_int i = (if i < 0 then CHR ''-'' # str_nat (nat (- i)) else str_nat (nat i))"

text \<open>
  \<open>Series.mean()\<close> skips NaN cells; with no number left (also on an empty Series) it is NaN.
\<close>

fun numbers :: "pyfloat list \<Rightarrow> rat list" where
  "numbers [] = []"
| "numbers (NaN # xs) = numbers xs"
| "numbers (Num q # xs) = q # numbers xs"

definition series_mean :: "pyfloat list \<Rightarrow> pyfloat" where
  "series_mean xs =
     (let qs = numbers xs in if qs = [] then NaN else Num (sum_list qs / of_nat (length qs)))"

section \<open>The remote sheet and what the user sees\<close>

text \<open>
  Which calls on the remote sheet succeed: building the client, \<open>open_by_url\<close>,
  \<open>get_all_records\<close>, \<open>clear\<close> and \<open>update\<close>. The sheet's content is the list of its
  rows below the header; it gives back the cells that were written to it.
\<close>

record remote =
  client_ok :: bool
  open_ok :: bool
  read_ok :: bool
  clear_ok :: bool
  update_ok :: bool

text \<open>The messages of \<open>st.error\<close> and \<open>st.success\<close>, in the order they are shown.\<close>

datatype msg =
  ConnectionError | LoadingError | SavingError | NoDataLoaded | ProgressUpdated | CostUpdated

definition get_google_sheet_connection :: "remote \<Rightarrow> bool \<times> msg list" where
  "get_google_sheet_connection env =
     (if client_ok env then (True, []) else (False, [ConnectionError]))"

section \<open>\<open>load_data\<close> (lines 57-77) and \<open>save_data\<close> (lines 79-99)\<close>

definition add_columns :: "pylib \<Rightarrow> raw_row \<Rightarrow> pyfloat \<Rightarrow> row" where
  "add_columns L r x =
     raw_row.extend r
       (row.fields x (to_datetime L (START_DATE r)) (to_datetime L (END_DATE r)))"

text \<open>
  Every failure inside the \<open>try\<close> block ends in the \<open>except\<close> branch: an error message and
  an empty DataFrame. An empty sheet gives the empty DataFrame without cleaning.
\<close>

definition load_data :: "pylib \<Rightarrow> remote \<Rightarrow> sheet_rows \<Rightarrow> dataframe \<times> msg list" where
  "load_data L env sheet =
     (let (client, shown) = get_google_sheet_connection env in
      if \<not> client then ([], shown)
      else if \<not> open_ok env then ([], shown @ [LoadingError])
      else if \<not> read_ok env then ([], shown @ [LoadingError])
      else if sheet = [] then ([], shown)
      else (case astype_float L (map (\<lambda>r. rstrip CHR ''%'' (PROGRESS r)) sheet) of
              None \<Rightarrow> ([], shown @ [LoadingError])
            | Some nums \<Rightarrow> (map (\<lambda>(r, x). add_columns L r x) (zip sheet nums), shown)))"

text \<open>
  The rows as uploaded: \<open>PROGRESS\<close> is rewritten from \<open>PROGRESS_NUM\<close>, the three derived
  columns are dropped.
\<close>

definition df_upload :: "pylib \<Rightarrow> dataframe \<Rightarrow> sheet_rows" where
  "df_upload L df =
     map (\<lambda>r. raw_row.truncate (r\<lparr>PROGRESS := float_str L (PROGRESS_NUM r) @ ''%''\<rparr>)) df"

text \<open>
  The result is the returned flag, the sheet afterwards and the messages. When \<open>clear\<close>
  has succeeded and \<open>update\<close> fails, the sheet is left empty.
\<close>

definition save_data :: "pylib \<Rightarrow> remote \<Rightarrow> sheet_rows \<Rightarrow> dataframe \<Rightarrow> bool \<times> sheet_rows \<times> msg list" where
  "save_data L env sheet df =
     (let (client, shown) = get_google_sheet_connection env in
      if \<not> client then (False, sheet, shown)
      else if \<not> open_ok env then (False, sheet, shown @ [SavingError])
      else if \<not> clear_ok env then (False, sheet, shown @ [SavingError])
      else if \<not> update_ok env then (False, [], shown @ [SavingError])
      else (True, df_upload L df, shown))"

section \<open>Query: the filters of \<open>main\<close> (lines 271-274)\<close>

definition filter_project :: "string \<Rightarrow> dataframe \<Rightarrow> dataframe" where
  "filter_project project_filter df =
     (if project_filter \<noteq> ''All'' then bool_index df (col_eq PROJECT project_filter df) else df)"

definition filter_type :: "string list \<Rightarrow> dataframe \<Rightarrow> dataframe" where
  "filter_type type_filter df = bool_index df (isin TASK_TYPE type_filter df)"

definition filter_status :: "string list \<Rightarrow> dataframe \<Rightarrow> dataframe" where
  "filter_status status_filter df = bool_index df (isin STATUS status_filter df)"

definition apply_filters :: "string \<Rightarrow> string list \<Rightarrow> string list \<Rightarrow> dataframe \<Rightarrow> dataframe" where
  "apply_filters project_filter type_filter status_filter df =
     filter_status status_filter (filter_type type_filter (filter_project project_filter df))"

section \<open>Report: the critical tasks (line 431)\<close>

definition critical :: "dataframe \<Rightarrow> dataframe" where
  "critical df =
     bool_index df (mask_and (isin PRIORITY [''Critical'', ''High''] df) (col_ne STATUS ''Complete'' df))"

text \<open>A task with the three columns of the fixture set and every other cell empty.\<close>

definition fixture_task :: "string \<Rightarrow> string \<Rightarrow> string \<Rightarrow> row" where
  "fixture_task p prio s =
     \<lparr>PROJECT = p, TASK_ID = [], TASK_NAME = [], TASK_TYPE = [], ASSIGNED_TO = [],
      START_DATE = [], END_DATE = [], PROGRESS = [], STATUS = s, PRIORITY = prio,
      BUDGET = 0, ACTUAL_COST = 0, PROGRESS_NUM = NaN, START = None, END = None\<rparr>"

section \<open>Dashboard metrics (lines 279-290) and the weekly report (lines 416, 423)\<close>

definition project_rows :: "string \<Rightarrow> dataframe \<Rightarrow> dataframe" where
  "project_rows p df = bool_index df (col_eq PROJECT p df)"

text \<open>\<open>villa['PROGRESS_NUM'].mean() if len(villa) > 0 else 0\<close>, the metric of a project.\<close>

definition metric_progress :: "dataframe \<Rightarrow> pyfloat" where
  "metric_progress villa =
     (if length villa > 0 then series_mean (map PROGRESS_NUM villa) else Num 0)"

text \<open>\<open>villa['PROGRESS_NUM'].mean()\<close>, the progress line of a project in the report.\<close>

definition report_progress :: "dataframe \<Rightarrow> pyfloat" where
  "report_progress villa = series_mean (map PROGRESS_NUM villa)"

section \<open>The update tab (lines 327-381)\<close>

text \<open>
  The label of a task in the select boxes (lines 338, 368):
  \<open>df[df['TASK_ID']==x]['TASK_NAME'].values[0]\<close>; \<open>None\<close> is the IndexError.
\<close>

definition task_label :: "dataframe \<Rightarrow> string \<Rightarrow> string option" where
  "task_label df x =
     (case map TASK_NAME (bool_index df (col_eq TASK_ID x df)) of
        [] \<Rightarrow> None
      | n # _ \<Rightarrow> Some (x @ '' - '' @ n))"

text \<open>Lines 345-351: the in-memory part of "Update Progress".\<close>

definition set_progress :: "string \<Rightarrow> int \<Rightarrow> dataframe \<Rightarrow> dataframe" where
  "set_progress selected_task new_progress df =
     (let df1 = loc_set (col_eq TASK_ID selected_task df)
                  (\<lambda>r. r\<lparr>PROGRESS_NUM := Num (of_int new_progress)\<rparr>) df;
          df2 = loc_set (col_eq TASK_ID selected_task df1)
                  (\<lambda>r. r\<lparr>PROGRESS := str_int new_progress @ ''%''\<rparr>) df1
      in if new_progress = 100
         then loc_set (col_eq TASK_ID selected_task df2) (\<lambda>r. r\<lparr>STATUS := ''Complete''\<rparr>) df2
         else if new_progress > 0
         then loc_set (col_eq TASK_ID selected_task df2) (\<lambda>r. r\<lparr>STATUS := ''In Progress''\<rparr>) df2
         else df2)"

text \<open>Line 376: the in-memory part of "Update Cost".\<close>

definition set_cost :: "string \<Rightarrow> int \<Rightarrow> dataframe \<Rightarrow> dataframe" where
  "set_cost cost_task new_cost df =
     loc_set (col_eq TASK_ID cost_task df) (\<lambda>r. r\<lparr>ACTUAL_COST := new_cost\<rparr>) df"

text \<open>
  The state shared by all runs: the sheet, and the cache of \<open>load_data\<close> (its DataFrame
  and the messages it replays). The cache's five-minute expiry is not modelled; a cache
  entry lives until \<open>st.cache_data.clear()\<close>.
\<close>

record app =
  sheet_of :: sheet_rows
  cache_of :: "(dataframe \<times> msg list) option"

definition load_data_cached :: "pylib \<Rightarrow> remote \<Rightarrow> app \<Rightarrow> dataframe \<times> msg list \<times> app" where
  "load_data_cached L env a =
     (case cache_of a of
        Some (df, shown) \<Rightarrow> (df, shown, a)
      | None \<Rightarrow>
          (let (df, shown) = load_data L env (sheet_of a)
           in (df, shown, a\<lparr>cache_of := Some (df, shown)\<rparr>)))"

text \<open>
  What one run of the script leaves: the shared state, the DataFrame \<open>df\<close> the rest of
  the run displays, the messages, and whether the run ended in \<open>st.rerun()\<close>.
\<close>

record outcome =
  app_after :: app
  df_after :: dataframe
  shown_after :: "msg list"
  rerun :: bool

text \<open>Lines 344-356: the button "Update Progress".\<close>

definition update_progress :: "pylib \<Rightarrow> remote \<Rightarrow> app \<Rightarrow> dataframe \<Rightarrow> string \<Rightarrow> int \<Rightarrow> outcome" where
  "update_progress L env a df selected_task new_progress =
     (let df' = set_progress selected_task new_progress df;
          (ok, sheet', shown) = save_data L env (sheet_of a) df'
      in if ok
         then \<lparr>app_after = \<lparr>sheet_of = sheet', cache_of = None\<rparr>, df_after = df',
               shown_after = shown @ [ProgressUpdated], rerun = True\<rparr>
         else \<lparr>app_after = a\<lparr>sheet_of := sheet'\<rparr>, df_after = df',
               shown_after = shown, rerun = False\<rparr>)"

text \<open>Lines 375-381: the button "Update Cost".\<close>

definition update_cost :: "pylib \<Rightarrow> remote \<Rightarrow> app \<Rightarrow> dataframe \<Rightarrow> string \<Rightarrow> int \<Rightarrow> outcome" where
  "update_cost L env a df cost_task new_cost =
     (let df' = set_cost cost_task new_cost df;
          (ok, sheet', shown) = save_data L env (sheet_of a) df'
      in if ok
         then \<lparr>app_after = \<lparr>sheet_of = sheet', cache_of = None\<rparr>, df_after = df',
               shown_after = shown @ [CostUpdated], rerun = True\<rparr>
         else \<lparr>app_after = a\<lparr>sheet_of := sheet'\<rparr>, df_after = df',
               shown_after = shown, rerun = False\<rparr>)"

section \<open>\<open>main\<close>: one run of the script in which an update button is pressed\<close>

datatype role = ProjectManager | SiteManager | Purchaser | Assistant | Client

text \<open>
  \<open>main\<close> loads twice (lines 240 and 264), stops on an empty DataFrame, rebinds \<open>df\<close> to
  the filtered rows (lines 271-274) and hands that \<open>df\<close> to the update tab.
\<close>

definition main_update_progress ::
  "pylib \<Rightarrow> remote \<Rightarrow> app \<Rightarrow> role \<Rightarrow> string \<Rightarrow> string list \<Rightarrow> string list \<Rightarrow> string \<Rightarrow> int \<Rightarrow> outcome" where
  "main_update_progress L env a user project_filter type_filter status_filter selected_task new_progress =
     (let (df0, shown0, a0) = load_data_cached L env a;
          (df1, shown1, a1) = load_data_cached L env a0
      in if df1 = []
         then \<lparr>app_after = a1, df_after = df1,
               shown_after = shown0 @ shown1 @ [NoDataLoaded], rerun = False\<rparr>
         else
           (let df = apply_filters project_filter type_filter status_filter df1
            in if user \<in> {ProjectManager, SiteManager, Assistant}
               then (let out = update_progress L env a1 df selected_task new_progress
                     in out\<lparr>shown_after := shown0 @ shown1 @ shown_after out\<rparr>)
               else \<lparr>app_after = a1, df_after = df,
                     shown_after = shown0 @ shown1, rerun = False\<rparr>))"

definition main_update_cost ::
  "pylib \<Rightarrow> remote \<Rightarrow> app \<Rightarrow> role \<Rightarrow> string \<Rightarrow> string list \<Rightarrow> string list \<Rightarrow> string \<Rightarrow> int \<Rightarrow> outcome" where
  "main_update_cost L env a user project_filter type_filter status_filter cost_task new_cost =
     (let (df0, shown0, a0) = load_data_cached L env a;
          (df1, shown1, a1) = load_data_cached L env a0
      in if df1 = []
         then \<lparr>app_after = a1, df_after = df1,
               shown_after = shown0 @ shown1 @ [NoDataLoaded], rerun = False\<rparr>
         else
           (let df = apply_filters project_filter type_filter status_filter df1
            in if user \<in> {ProjectManager, Purchaser, Assistant}
               then (let out = update_cost L env a1 df cost_task new_cost
                     in out\<lparr>shown_after := shown0 @ shown1 @ shown_after out\<rparr>)
               else \<lparr>app_after = a1, df_after = df,
                     shown_after = shown0 @ shown1, rerun = False\<rparr>))"

section \<open>An instance of the library, to run the program on concrete sheets\<close>

text \<open>
  \<open>stdlib\<close> agrees with Python on the cells used in the examples below:
  \<open>float_of_str\<close> is \<open>float\<close> on plain decimal literals (an optional minus sign, digits,
  an optional point) and on \<open>nan\<close>, and raises on text such as \<open>n/a\<close> or the empty string;
  \<open>str_float\<close> is \<open>str\<close> on numbers with a short decimal expansion (\<open>50.0\<close>, \<open>12.5\<close>);
  \<open>parse_date\<close> reads day/month/year and checks the calendar. Forms that only Python
  reads (exponents, underscores, blanks, infinities) are outside the instance; the
  general theorems below hold for every library \<open>L\<close>.
\<close>

definition is_digit :: "char \<Rightarrow> bool" where
  "is_digit c = (c \<in> set ''0123456789'')"

definition digit_val :: "char \<Rightarrow> nat" where
  "digit_val c = of_char c - 48"

definition nat_of_digits :: "string \<Rightarrow> nat" where
  "nat_of_digits s = foldl (\<lambda>n c. 10 * n + digit_val c) 0 s"

definition parse_decimal :: "string \<Rightarrow> rat option" where
  "parse_decimal s =
     (let ip = takeWhile is_digit s; rest = dropWhile is_digit s
      in case rest of
           [] \<Rightarrow> (if ip = [] then None else Some (of_nat (nat_of_digits ip)))
         | c # fp \<Rightarrow>
             (if c = CHR ''.'' \<and> list_all is_digit fp \<and> \<not> (ip = [] \<and> fp = [])
              then Some (of_nat (nat_of_digits (ip @ fp)) / 10 ^ length fp)
              else None))"

definition float_of_str :: "string \<Rightarrow> pyfloat option" where
  "float_of_str s =
     (if s = ''nan'' then Some NaN
      else case s of
             CHR ''-'' # t \<Rightarrow> map_option (\<lambda>q. Num (- q)) (parse_decimal t)
           | _ \<Rightarrow> map_option Num (parse_decimal s))"

fun frac_digits :: "nat \<Rightarrow> nat \<Rightarrow> nat \<Rightarrow> string" where
  "frac_digits 0 r d = []"
| "frac_digits (Suc k) r d =
     (if r = 0 then [] else digit_char (r * 10 div d) # frac_digits k (r * 10 mod d) d)"

definition str_float :: "pyfloat \<Rightarrow> string" where
  "str_float x =
     (case x of
        NaN \<Rightarrow> ''nan''
      | Num q \<Rightarrow>
          (let (n, d) = quotient_of q; a = nat \<bar>n\<bar>; r = a mod nat d
           in (if n < 0 then ''-'' else []) @ str_nat (a div nat d) @ ''.'' @
              (if r = 0 then ''0'' else frac_digits 17 r (nat d))))"

fun split_on :: "char \<Rightarrow> string \<Rightarrow> string list" where
  "split_on c [] = [[]]"
| "split_on c (x # xs) =
     (if x = c then [] # split_on c xs
      else (case split_on c xs of [] \<Rightarrow> [[x]] | p # ps \<Rightarrow> (x # p) # ps))"

definition days_in_month :: "nat \<Rightarrow> nat \<Rightarrow> nat" where
  "days_in_month y m =
     (if m \<in> {4, 6, 9, 11} then 30
      else if m = 2 then (if y mod 4 = 0 \<and> \<not> (y mod 100 = 0 \<and> y mod 400 \<noteq> 0) then 29 else 28)
      else 31)"

definition parse_date :: "string \<Rightarrow> timestamp option" where
  "parse_date s =
     (case split_on CHR ''/'' s of
        [dd, mm, yy] \<Rightarrow>
          (if list_all is_digit (dd @ mm @ yy) \<and> length dd \<in> {1, 2} \<and> length mm \<in> {1, 2}
              \<and> length yy = 4
           then (let d = nat_of_digits dd; m = nat_of_digits mm; y = nat_of_digits yy
                 in if 1 \<le> m \<and> m \<le> 12 \<and> 1 \<le> d \<and> d \<le> days_in_month y m
                    then Some (y, m, d) else None)
           else None)
      | _ \<Rightarrow> None)"

definition stdlib :: pylib where
  "stdlib = \<lparr>py_float = float_of_str, float_str = str_float, to_datetime = parse_date\<rparr>"

section \<open>Collections as the program produces them\<close>

text \<open>
  \<open>load_data\<close> derives \<open>START\<close> and \<open>END\<close> from the two date columns and nothing
  changes them afterwards: \<open>dates_parsed\<close>. \<open>progress_reparses\<close> says of the library that
  the float text of each numeric progress, as \<open>save_data\<close> writes it, reads back as the
  same float.
\<close>

definition dates_parsed :: "pylib \<Rightarrow> dataframe \<Rightarrow> bool" where
  "dates_parsed L df =
     list_all (\<lambda>r. START r = to_datetime L (START_DATE r) \<and> END r = to_datetime L (END_DATE r)) df"

definition progress_reparses :: "pylib \<Rightarrow> dataframe \<Rightarrow> bool" where
  "progress_reparses L df =
     list_all (\<lambda>r. py_float L (rstrip CHR ''%'' (float_str L (PROGRESS_NUM r) @ ''%''))
                    = Some (PROGRESS_NUM r)) df"

text \<open>A row with its \<open>PROGRESS\<close> text as \<open>save_data\<close> rewrites it (line 90).\<close>

definition retext :: "pylib \<Rightarrow> row \<Rightarrow> row" where
  "retext L r = r\<lparr>PROGRESS := float_str L (PROGRESS_NUM r) @ ''%''\<rparr>"

section \<open>Example sheets\<close>

definition cell_row :: "string \<Rightarrow> string \<Rightarrow> string \<Rightarrow> string \<Rightarrow> raw_row" where
  "cell_row p t prog s =
     \<lparr>PROJECT = p, TASK_ID = t, TASK_NAME = ''Foundation'', TASK_TYPE = ''Build'',
      ASSIGNED_TO = ''Ann'', START_DATE = ''01/02/2024'', END_DATE = ''15/02/2024'',
      PROGRESS = prog, STATUS = s, PRIORITY = ''High'', BUDGET = 10000, ACTUAL_COST = 0\<rparr>"

definition healthy :: remote where
  "healthy = \<lparr>client_ok = True, open_ok = True, read_ok = True, clear_ok = True, update_ok = True\<rparr>"

definition demo_sheet :: sheet_rows where
  "demo_sheet = [cell_row ''Villa 5'' ''T1'' ''50%'' ''In Progress'',
                 cell_row ''Villa 6'' ''T2'' ''0%'' ''Not Started'']"

definition demo_df :: dataframe where
  "demo_df = fst (load_data stdlib healthy demo_sheet)"

text \<open>A sheet in which the task id \<open>T1\<close> occurs twice.\<close>

definition twice_sheet :: sheet_rows where
  "twice_sheet = [cell_row ''Villa 5'' ''T1'' ''0%'' ''Not Started'',
                  cell_row ''Villa 6'' ''T1'' ''0%'' ''Not Started'']"

definition twice_df :: dataframe where
  "twice_df = fst (load_data stdlib healthy twice_sheet)"

text \<open>The view a user sees who filters the dashboard to Villa 5.\<close>

definition villa5_view :: dataframe where
  "villa5_view = apply_filters ''Villa 5'' [''Build''] [''In Progress'', ''Not Started''] demo_df"

text \<open>The shared state before the first load, and after a load has filled the cache.\<close>

definition demo_app :: app where
  "demo_app = \<lparr>sheet_of = demo_sheet, cache_of = None\<rparr>"

definition cached_app :: app where
  "cached_app = \<lparr>sheet_of = demo_sheet, cache_of = Some (demo_df, [])\<rparr>"

text \<open>A remote sheet whose \<open>update\<close> call fails.\<close>

definition update_down :: remote where
  "update_down = healthy\<lparr>update_ok := False\<rparr>"

text \<open>A sheet whose second row has a progress cell that is not a number.\<close>

definition malformed_sheet :: sheet_rows where
  "malformed_sheet = [cell_row ''Villa 5'' ''T1'' ''50%'' ''In Progress'',
                      cell_row ''Villa 6'' ''T2'' ''n/a'' ''Not Started'']"

section \<open>Facts about the pandas operations\<close>

lemma bool_index_map: "bool_index df (map P df) = filter P df"
  by (induction df) (simp_all add: bool_index_def)

lemma loc_set_map: "loc_set (map P df) upd df = map (\<lambda>r. if P r then upd r else r) df"
  by (induction df) (simp_all add: loc_set_def)

lemma mask_and_map: "mask_and (map P df) (map Q df) = map (\<lambda>r. P r \<and> Q r) df"
  by (induction df) (simp_all add: mask_and_def)

lemma filter_project_eq:
  "filter_project pf df = (if pf \<noteq> ''All'' then filter (\<lambda>r. PROJECT r = pf) df else df)"
  by (simp add: filter_project_def col_eq_def bool_index_map)

lemma filter_type_eq: "filter_type tf df = filter (\<lambda>r. TASK_TYPE r \<in> set tf) df"
  by (simp add: filter_type_def isin_def bool_index_map)

lemma filter_status_eq: "filter_status sf df = filter (\<lambda>r. STATUS r \<in> set sf) df"
  by (simp add: filter_status_def isin_def bool_index_map)

lemma critical_eq:
  "critical df =
     filter (\<lambda>r. (PRIORITY r = ''Critical'' \<or> PRIORITY r = ''High'') \<and> STATUS r \<noteq> ''Complete'') df"
  by (simp add: critical_def isin_def col_ne_def mask_and_map bool_index_map)

lemma loc_set_col_eq:
  "loc_set (col_eq c v df) upd df = map (\<lambda>r. if c r = v then upd r else r) df"
  by (simp add: col_eq_def loc_set_map)

lemma set_cost_eq:
  "set_cost t v df = map (\<lambda>r. if TASK_ID r = t then r\<lparr>ACTUAL_COST := v\<rparr> else r) df"
  by (simp add: set_cost_def loc_set_col_eq)

lemma set_progress_eq:
  "set_progress t p df =
     map (\<lambda>r. if TASK_ID r = t
               then r\<lparr>PROGRESS_NUM := Num (of_int p), PROGRESS := str_int p @ ''%'',
                      STATUS := (if p = 100 then ''Complete'' else if 0 < p then ''In Progress'' else STATUS r)\<rparr>
               else r) df"
  by (simp add: set_progress_def loc_set_col_eq Let_def comp_def cong: if_cong)

lemma task_label_eq:
  "task_label df x =
     (case find (\<lambda>r. TASK_ID r = x) df of None \<Rightarrow> None | Some r \<Rightarrow> Some (x @ '' - '' @ TASK_NAME r))"
proof -
  have "(case map TASK_NAME (filter (\<lambda>r. TASK_ID r = x) df) of [] \<Rightarrow> None | n # _ \<Rightarrow> Some (x @ '' - '' @ n))
        = (case find (\<lambda>r. TASK_ID r = x) df of None \<Rightarrow> None | Some r \<Rightarrow> Some (x @ '' - '' @ TASK_NAME r))"
    by (induction df) simp_all
  then show ?thesis
    by (simp add: task_label_def col_eq_def bool_index_map)
qed


section \<open>Facts about loading and saving\<close>

lemmas lib_simps = stdlib_def float_of_str_def parse_decimal_def is_digit_def nat_of_digits_def
  digit_val_def str_float_def str_nat.simps digit_char_def str_int_def parse_date_def
  days_in_month_def rstrip_def

lemmas run_simps = load_data_def save_data_def get_google_sheet_connection_def healthy_def
  cell_row_def add_columns_def raw_row.extend_def raw_row.truncate_def row.fields_def df_upload_def

lemma astype_float_None:
  "s \<in> set ss \<Longrightarrow> py_float L s = None \<Longrightarrow> astype_float L ss = None"
  by (induction ss) (auto split: option.splits)

lemma load_data_aborts:
  assumes "r \<in> set sheet" and "py_float L (rstrip CHR ''%'' (PROGRESS r)) = None"
  shows "fst (load_data L env sheet) = []"
proof -
  have "astype_float L (map (\<lambda>r. rstrip CHR ''%'' (PROGRESS r)) sheet) = None"
    using assms by (intro astype_float_None [where s = "rstrip CHR ''%'' (PROGRESS r)"]) auto
  then show ?thesis
    by (simp add: load_data_def get_google_sheet_connection_def Let_def)
qed


lemma add_columns_truncate:
  fixes r :: row
  assumes "START r = to_datetime L (START_DATE r)" and "END r = to_datetime L (END_DATE r)"
  shows "add_columns L (raw_row.truncate (r\<lparr>PROGRESS := s\<rparr>)) (PROGRESS_NUM r) = r\<lparr>PROGRESS := s\<rparr>"
  using assms
  by (cases r) (simp add: add_columns_def raw_row.extend_def raw_row.truncate_def row.fields_def)

lemma astype_float_upload:
  "progress_reparses L df \<Longrightarrow>
   astype_float L (map (\<lambda>r. rstrip CHR ''%'' (PROGRESS r)) (df_upload L df)) = Some (map PROGRESS_NUM df)"
proof (induction df)
  case Nil
  then show ?case by (simp add: df_upload_def)
next
  case (Cons r df)
  then have "astype_float L (map (\<lambda>r. rstrip CHR ''%'' (PROGRESS r)) (df_upload L df)) = Some (map PROGRESS_NUM df)"
    by (simp add: progress_reparses_def)
  moreover have "py_float L (rstrip CHR ''%'' (float_str L (PROGRESS_NUM r) @ ''%'')) = Some (PROGRESS_NUM r)"
    using Cons.prems by (simp add: progress_reparses_def)
  ultimately show ?case
    by (simp add: df_upload_def raw_row.truncate_def)
qed

lemma rebuild_upload:
  "dates_parsed L df \<Longrightarrow>
   map (\<lambda>(r, x). add_columns L r x) (zip (df_upload L df) (map PROGRESS_NUM df)) = map (retext L) df"
proof (induction df)
  case Nil
  then show ?case by (simp add: df_upload_def)
next
  case (Cons r df)
  have "add_columns L (raw_row.truncate (r\<lparr>PROGRESS := float_str L (PROGRESS_NUM r) @ ''%''\<rparr>)) (PROGRESS_NUM r)
        = retext L r"
    unfolding retext_def using Cons.prems
    by (intro add_columns_truncate) (simp_all add: dates_parsed_def)
  moreover have "map (\<lambda>(r, x). add_columns L r x) (zip (df_upload L df) (map PROGRESS_NUM df)) = map (retext L) df"
    using Cons by (simp add: dates_parsed_def)
  ultimately show ?case
    using Cons.prems by (simp add: df_upload_def)
qed

lemma load_data_upload:
  assumes "client_ok env" and "open_ok env" and "read_ok env"
    and "progress_reparses L df" and "dates_parsed L df"
  shows "load_data L env (df_upload L df) = (map (retext L) df, [])"
proof (cases "df = []")
  case True
  then show ?thesis
    using assms by (simp add: load_data_def get_google_sheet_connection_def df_upload_def)
next
  case False
  then have "df_upload L df \<noteq> []" by (simp add: df_upload_def)
  then show ?thesis
    using assms
    by (simp add: load_data_def get_google_sheet_connection_def astype_float_upload rebuild_upload)
qed

lemma save_data_ok:
  assumes "client_ok env" and "open_ok env" and "clear_ok env" and "update_ok env"
  shows "save_data L env sheet df = (True, df_upload L df, [])"
  using assms by (simp add: save_data_def get_google_sheet_connection_def)


lemma set_cost_keeps:
  "progress_reparses L df \<Longrightarrow> progress_reparses L (set_cost t c df)"
  "dates_parsed L df \<Longrightarrow> dates_parsed L (set_cost t c df)"
  by (auto simp: set_cost_eq progress_reparses_def dates_parsed_def list_all_iff)

lemma set_progress_keeps_dates:
  "dates_parsed L df \<Longrightarrow> dates_parsed L (set_progress t p df)"
  by (auto simp: set_progress_eq dates_parsed_def list_all_iff)

lemma filter_keeps_dates:
  "dates_parsed L df \<Longrightarrow> dates_parsed L (apply_filters pf tf sf df)"
  by (auto simp: apply_filters_def filter_status_eq filter_type_eq filter_project_eq
      dates_parsed_def list_all_iff)

lemma add_columns_dates:
  "START (add_columns L r x) = to_datetime L (START_DATE (add_columns L r x)) \<and>
   END (add_columns L r x) = to_datetime L (END_DATE (add_columns L r x))"
  by (cases r) (simp add: add_columns_def raw_row.extend_def row.fields_def)

lemma load_data_dates: "dates_parsed L (fst (load_data L env sheet))"
  by (auto simp: load_data_def get_google_sheet_connection_def Let_def dates_parsed_def
      list_all_iff add_columns_dates split: option.splits)

lemma demo_df_rows:
  "demo_df =
     [add_columns stdlib (cell_row ''Villa 5'' ''T1'' ''50%'' ''In Progress'') (Num 50),
      add_columns stdlib (cell_row ''Villa 6'' ''T2'' ''0%'' ''Not Started'') (Num 0)]"
  by (simp add: demo_df_def demo_sheet_def load_data_def get_google_sheet_connection_def
      healthy_def cell_row_def lib_simps)

lemma demo_df_reparses: "progress_reparses stdlib demo_df"
  unfolding demo_df_rows
  by (simp add: progress_reparses_def add_columns_def raw_row.extend_def row.fields_def lib_simps)

lemma demo_df_dates: "dates_parsed stdlib demo_df"
  unfolding demo_df_def by (rule load_data_dates)

lemma save_data_flag:
  "fst (save_data L env sheet df) = (client_ok env \<and> open_ok env \<and> clear_ok env \<and> update_ok env)"
  by (simp add: save_data_def get_google_sheet_connection_def)

lemma save_data_failed_shown:
  "\<not> fst (save_data L env sheet df) \<Longrightarrow>
   snd (snd (save_data L env sheet df)) = [ConnectionError]
   \<or> snd (snd (save_data L env sheet df)) = [SavingError]"
  by (auto simp: save_data_def get_google_sheet_connection_def)

lemma twice_df_rows:
  "twice_df =
     [add_columns stdlib (cell_row ''Villa 5'' ''T1'' ''0%'' ''Not Started'') (Num 0),
      add_columns stdlib (cell_row ''Villa 6'' ''T1'' ''0%'' ''Not Started'') (Num 0)]"
  by (simp add: twice_df_def twice_sheet_def load_data_def get_google_sheet_connection_def
      healthy_def cell_row_def lib_simps)

section \<open>Facts about the update tab and the report\<close>

text \<open>
  With a filled cache, an authorised role and a healthy sheet, "Update Progress" leaves in
  the sheet the upload of the filtered and updated view, whatever the filters excluded.
\<close>

lemma main_update_progress_saves_view:
  assumes "client_ok env" and "open_ok env" and "clear_ok env" and "update_ok env"
    and "cache_of a = Some (df1, shown)" and "df1 \<noteq> []"
    and "user = ProjectManager \<or> user = SiteManager \<or> user = Assistant"
  shows "sheet_of (app_after (main_update_progress L env a user pf tf sf t p))
         = df_upload L (set_progress t p (apply_filters pf tf sf df1))"
  using assms
  by (auto simp: main_update_progress_def load_data_cached_def update_progress_def save_data_ok
      Let_def)

text \<open>The mean over the cells that are numbers; the two ways an empty group is reported.\<close>

lemma series_mean_numbers:
  "numbers xs \<noteq> [] \<Longrightarrow>
   series_mean xs = Num (sum_list (numbers xs) / of_nat (length (numbers xs)))"
  by (simp add: series_mean_def Let_def)

lemma empty_group_progress: "metric_progress [] = Num 0" "report_progress [] = NaN"
  by (simp_all add: metric_progress_def report_progress_def series_mean_def)

section \<open>Claims\<close>

text \<open>
  C1. The specification says that "Update Progress" saves the full unfiltered collection,
  so that rows excluded by the active filters are still in the sheet afterwards. The
  program saves the filtered \<open>df\<close>: with the project filter on Villa 5, updating T1
  removes the Villa 6 task T2 from the sheet.
\<close>

theorem C1_filtered_rows_deleted:
  "map TASK_ID (sheet_of demo_app) = [''T1'', ''T2'']
   \<and> rerun (main_update_progress stdlib healthy demo_app ProjectManager
        ''Villa 5'' [''Build''] [''In Progress'', ''Not Started''] ''T1'' 75)
   \<and> map TASK_ID (sheet_of (app_after (main_update_progress stdlib healthy demo_app ProjectManager
        ''Villa 5'' [''Build''] [''In Progress'', ''Not Started''] ''T1'' 75))) = [''T1'']"
  by (simp add: main_update_progress_def load_data_cached_def demo_app_def demo_sheet_def
      apply_filters_def filter_status_eq filter_type_eq filter_project_eq
      update_progress_def set_progress_eq run_simps lib_simps)

text \<open>
  C2. For a new progress between 0 and 100, \<open>set_progress\<close> sets the numeric and the
  textual progress of the selected task and re-derives its status: 100 gives Complete,
  a value strictly between 0 and 100 gives In Progress, 0 leaves the status as it was.
  Every other task is unchanged.
\<close>

theorem C2_status_rederived:
  assumes "0 \<le> p" and "p \<le> 100" and "i < length df"
  shows "length (set_progress t p df) = length df \<and>
    (TASK_ID (df ! i) = t \<longrightarrow>
       PROGRESS_NUM (set_progress t p df ! i) = Num (of_int p) \<and>
       PROGRESS (set_progress t p df ! i) = str_int p @ ''%'' \<and>
       (p = 100 \<longrightarrow> STATUS (set_progress t p df ! i) = ''Complete'') \<and>
       (0 < p \<and> p < 100 \<longrightarrow> STATUS (set_progress t p df ! i) = ''In Progress'') \<and>
       (p = 0 \<longrightarrow> STATUS (set_progress t p df ! i) = STATUS (df ! i))) \<and>
    (TASK_ID (df ! i) \<noteq> t \<longrightarrow> set_progress t p df ! i = df ! i)"
  using assms by (simp add: set_progress_eq)

text \<open>The three cases on task T2 of the example sheet, whose status is Not Started.\<close>

theorem C2_status_rederived_witness:
  "STATUS (set_progress ''T2'' 100 demo_df ! 1) = ''Complete''
   \<and> STATUS (set_progress ''T2'' 50 demo_df ! 1) = ''In Progress''
   \<and> STATUS (set_progress ''T2'' 0 demo_df ! 1) = ''Not Started''
   \<and> set_progress ''T2'' 50 demo_df ! 0 = demo_df ! 0"
proof -
  have len: "1 < length demo_df" and len0: "0 < length demo_df"
    and tid: "TASK_ID (demo_df ! 1) = ''T2''"
    and st: "STATUS (demo_df ! 1) = ''Not Started''" and other: "TASK_ID (demo_df ! 0) \<noteq> ''T2''"
    unfolding demo_df_rows by (simp_all add: add_columns_def cell_row_def raw_row.extend_def)
  show ?thesis
    using C2_status_rederived [of 100 1 demo_df "''T2''"] C2_status_rederived [of 50 1 demo_df "''T2''"]
      C2_status_rederived [of 0 1 demo_df "''T2''"] C2_status_rederived [of 50 0 demo_df "''T2''"]
      len len0 tid st other
    by simp
qed

text \<open>
  C3. The specification says that a progress cell that is not a number is coerced to NaN
  for its row and the other rows are still loaded. The program converts the column
  without coercion, the conversion raises, and \<open>load_data\<close> returns the empty DataFrame
  with an error message: the well-formed task T1 is lost with the malformed T2.
\<close>

theorem C3_malformed_progress_aborts_load:
  "load_data stdlib healthy malformed_sheet = ([], [LoadingError])"
  by (simp add: malformed_sheet_def run_simps lib_simps)

text \<open>
  C4. When \<open>save_data\<close> fails in "Update Progress" or "Update Cost", the run shows an
  error and does not rerun, \<open>df\<close> keeps the mutation, the cache is not cleared, and a
  cached read afterwards returns the DataFrame that was cached before the mutation.
\<close>

theorem C4_failed_save:
  "(\<not> fst (save_data L env (sheet_of a) (set_progress t p df)) \<longrightarrow>
      \<not> rerun (update_progress L env a df t p) \<and>
      (shown_after (update_progress L env a df t p) = [ConnectionError]
       \<or> shown_after (update_progress L env a df t p) = [SavingError]) \<and>
      df_after (update_progress L env a df t p) = set_progress t p df \<and>
      cache_of (app_after (update_progress L env a df t p)) = cache_of a \<and>
      (cache_of a = Some (d, shown) \<longrightarrow>
         load_data_cached L env' (app_after (update_progress L env a df t p))
           = (d, shown, app_after (update_progress L env a df t p))))
   \<and> (\<not> fst (save_data L env (sheet_of a) (set_cost t c df)) \<longrightarrow>
      \<not> rerun (update_cost L env a df t c) \<and>
      (shown_after (update_cost L env a df t c) = [ConnectionError]
       \<or> shown_after (update_cost L env a df t c) = [SavingError]) \<and>
      df_after (update_cost L env a df t c) = set_cost t c df \<and>
      cache_of (app_after (update_cost L env a df t c)) = cache_of a \<and>
      (cache_of a = Some (d, shown) \<longrightarrow>
         load_data_cached L env' (app_after (update_cost L env a df t c))
           = (d, shown, app_after (update_cost L env a df t c))))"
proof -
  have prog: "\<not> fst (save_data L env (sheet_of a) (set_progress t p df)) \<Longrightarrow>
      update_progress L env a df t p =
        \<lparr>app_after = a\<lparr>sheet_of := fst (snd (save_data L env (sheet_of a) (set_progress t p df)))\<rparr>,
         df_after = set_progress t p df,
         shown_after = snd (snd (save_data L env (sheet_of a) (set_progress t p df))),
         rerun = False\<rparr>"
    by (cases "save_data L env (sheet_of a) (set_progress t p df)") (simp add: update_progress_def)
  have cost: "\<not> fst (save_data L env (sheet_of a) (set_cost t c df)) \<Longrightarrow>
      update_cost L env a df t c =
        \<lparr>app_after = a\<lparr>sheet_of := fst (snd (save_data L env (sheet_of a) (set_cost t c df)))\<rparr>,
         df_after = set_cost t c df,
         shown_after = snd (snd (save_data L env (sheet_of a) (set_cost t c df))),
         rerun = False\<rparr>"
    by (cases "save_data L env (sheet_of a) (set_cost t c df)") (simp add: update_cost_def)
  show ?thesis
    using save_data_failed_shown [of L env "sheet_of a" "set_progress t p df"]
      save_data_failed_shown [of L env "sheet_of a" "set_cost t c df"]
    by (auto simp: prog cost load_data_cached_def)
qed

text \<open>Both updates against a sheet whose \<open>update\<close> call fails, with a filled cache.\<close>

theorem C4_failed_save_witness:
  "\<not> fst (save_data stdlib update_down (sheet_of cached_app) (set_progress ''T1'' 75 demo_df))
   \<and> shown_after (update_progress stdlib update_down cached_app demo_df ''T1'' 75) = [SavingError]
   \<and> df_after (update_progress stdlib update_down cached_app demo_df ''T1'' 75) = set_progress ''T1'' 75 demo_df
   \<and> fst (load_data_cached stdlib healthy (app_after (update_progress stdlib update_down cached_app demo_df ''T1'' 75))) = demo_df
   \<and> \<not> fst (save_data stdlib update_down (sheet_of cached_app) (set_cost ''T1'' 5000 demo_df))
   \<and> shown_after (update_cost stdlib update_down cached_app demo_df ''T1'' 5000) = [SavingError]
   \<and> df_after (update_cost stdlib update_down cached_app demo_df ''T1'' 5000) = set_cost ''T1'' 5000 demo_df
   \<and> fst (load_data_cached stdlib healthy (app_after (update_cost stdlib update_down cached_app demo_df ''T1'' 5000))) = demo_df"
proof -
  have f1: "\<not> fst (save_data stdlib update_down (sheet_of cached_app) (set_progress ''T1'' 75 demo_df))"
    and f2: "\<not> fst (save_data stdlib update_down (sheet_of cached_app) (set_cost ''T1'' 5000 demo_df))"
    by (simp_all add: save_data_flag update_down_def healthy_def)
  have s1: "snd (snd (save_data stdlib update_down (sheet_of cached_app) (set_progress ''T1'' 75 demo_df))) = [SavingError]"
    and s2: "snd (snd (save_data stdlib update_down (sheet_of cached_app) (set_cost ''T1'' 5000 demo_df))) = [SavingError]"
    by (simp_all add: save_data_def get_google_sheet_connection_def update_down_def healthy_def)
  have sh1: "shown_after (update_progress stdlib update_down cached_app demo_df ''T1'' 75) = [SavingError]"
    by (cases "save_data stdlib update_down (sheet_of cached_app) (set_progress ''T1'' 75 demo_df)")
       (use f1 s1 in \<open>simp add: update_progress_def\<close>)
  have sh2: "shown_after (update_cost stdlib update_down cached_app demo_df ''T1'' 5000) = [SavingError]"
    by (cases "save_data stdlib update_down (sheet_of cached_app) (set_cost ''T1'' 5000 demo_df)")
       (use f2 s2 in \<open>simp add: update_cost_def\<close>)
  have c: "cache_of cached_app = Some (demo_df, [])"
    by (simp add: cached_app_def)
  show ?thesis
    using C4_failed_save [of stdlib update_down cached_app "''T1''" 75 demo_df demo_df "[]" healthy 5000]
      f1 f2 sh1 sh2 c
    by simp
qed

text \<open>
  C5 (amended). For every collection \<open>df\<close> that "Update Cost" is applied to, after a
  successful save and a fresh load each task of \<open>df\<close> is reloaded in its place, with the
  new actual cost on the tasks whose id is selected and every other field as before,
  except the textual progress: \<open>save_data\<close> rewrites it as the float text of the numeric
  progress followed by a percent sign. The library is assumed to read that text back as
  the same float.
\<close>

theorem C5_cost_saved_and_reloaded:
  assumes "client_ok env" and "open_ok env" and "read_ok env" and "clear_ok env" and "update_ok env"
    and "progress_reparses L df" and "dates_parsed L df"
  shows "rerun (update_cost L env a df t c)
    \<and> shown_after (update_cost L env a df t c) = [CostUpdated]
    \<and> cache_of (app_after (update_cost L env a df t c)) = None
    \<and> fst (load_data_cached L env (app_after (update_cost L env a df t c)))
       = map (\<lambda>r. retext L (if TASK_ID r = t then r\<lparr>ACTUAL_COST := c\<rparr> else r)) df"
proof -
  have up: "update_cost L env a df t c =
      \<lparr>app_after = \<lparr>sheet_of = df_upload L (set_cost t c df), cache_of = None\<rparr>,
       df_after = set_cost t c df, shown_after = [CostUpdated], rerun = True\<rparr>"
    using assms by (simp add: update_cost_def save_data_ok Let_def)
  have "load_data L env (df_upload L (set_cost t c df)) = (map (retext L) (set_cost t c df), [])"
    using assms by (intro load_data_upload set_cost_keeps)
  then show ?thesis
    by (simp add: up load_data_cached_def set_cost_eq comp_def)
qed

text \<open>The update of T1 to 5000 on the example sheet.\<close>

theorem C5_cost_saved_and_reloaded_witness:
  "map ACTUAL_COST (fst (load_data_cached stdlib healthy
        (app_after (update_cost stdlib healthy demo_app demo_df ''T1'' 5000)))) = [5000, 0]
   \<and> map PROGRESS_NUM (fst (load_data_cached stdlib healthy
        (app_after (update_cost stdlib healthy demo_app demo_df ''T1'' 5000)))) = [Num 50, Num 0]"
proof -
  have env: "client_ok healthy" "open_ok healthy" "read_ok healthy" "clear_ok healthy" "update_ok healthy"
    by (simp_all add: healthy_def)
  have "map ACTUAL_COST (map (\<lambda>r. retext stdlib (if TASK_ID r = ''T1'' then r\<lparr>ACTUAL_COST := 5000\<rparr> else r)) demo_df) = [5000, 0]"
    "map PROGRESS_NUM (map (\<lambda>r. retext stdlib (if TASK_ID r = ''T1'' then r\<lparr>ACTUAL_COST := 5000\<rparr> else r)) demo_df) = [Num 50, Num 0]"
    unfolding demo_df_rows
    by (simp_all add: retext_def add_columns_def raw_row.extend_def row.fields_def cell_row_def)
  then show ?thesis
    using C5_cost_saved_and_reloaded [OF env demo_df_reparses demo_df_dates, of demo_app "''T1''" 5000]
    by simp
qed

text \<open>
  The textual progress is not unchanged, as the specification has it: \<open>50%\<close> of T1 is
  reloaded as \<open>50.0%\<close>.
\<close>

theorem C5_progress_text_rewritten:
  "map PROGRESS demo_df = [''50%'', ''0%'']
   \<and> rerun (update_cost stdlib healthy demo_app demo_df ''T1'' 5000)
   \<and> map PROGRESS (fst (load_data_cached stdlib healthy
        (app_after (update_cost stdlib healthy demo_app demo_df ''T1'' 5000))))
     = [''50.0%'', ''0.0%'']"
  by (simp add: demo_df_rows update_cost_def set_cost_eq load_data_cached_def demo_app_def
      run_simps lib_simps)

text \<open>
  C6. The specification says that the mean progress of a project with no task in the
  view is 0, not NaN. The dashboard metric has that guard; the weekly report takes the
  mean without it, so on the view filtered to Villa 5 the report's progress of Villa 6 is
  NaN while the metric is 0.
\<close>

theorem C6_report_mean_of_empty_group:
  "project_rows ''Villa 6'' villa5_view = []
   \<and> report_progress (project_rows ''Villa 6'' villa5_view) = NaN
   \<and> metric_progress (project_rows ''Villa 6'' villa5_view) = Num 0"
  by (simp add: villa5_view_def demo_df_rows apply_filters_def filter_status_eq filter_type_eq
      filter_project_eq project_rows_def col_eq_def bool_index_def report_progress_def
      metric_progress_def series_mean_def add_columns_def raw_row.extend_def cell_row_def)



text \<open>
  C8. \<open>critical\<close> returns exactly the tasks whose priority is Critical or High and whose
  status is not Complete, in collection order; on the fixture
  [(P1, High, In Progress), (P1, Low, Complete), (P2, Critical, Not Started)] it returns
  the first and the third task, in that order.
\<close>

theorem C8_critical_pending:
  "critical df =
     filter (\<lambda>r. (PRIORITY r = ''Critical'' \<or> PRIORITY r = ''High'') \<and> STATUS r \<noteq> ''Complete'') df
   \<and> critical [fixture_task ''P1'' ''High'' ''In Progress'',
                fixture_task ''P1'' ''Low'' ''Complete'',
                fixture_task ''P2'' ''Critical'' ''Not Started'']
     = [fixture_task ''P1'' ''High'' ''In Progress'',
        fixture_task ''P2'' ''Critical'' ''Not Started'']"
  by (simp add: critical_eq fixture_task_def)

text \<open>
  C9. Filtering by project and then by status gives the same rows as filtering by status
  and then by project (the same list, hence the same set).
\<close>

theorem C9_filters_commute:
  "filter_status sf (filter_project pf df) = filter_project pf (filter_status sf df)
   \<and> set (filter_status sf (filter_project pf df)) = set (filter_project pf (filter_status sf df))"
proof -
  have "filter_status sf (filter_project pf df) = filter_project pf (filter_status sf df)"
    by (simp add: filter_status_eq filter_project_eq conj_commute)
  then show ?thesis by simp
qed

text \<open>
  C10 (amended). The label of a task in the select boxes is taken from the first row
  whose task id matches; "Update Progress" and "Update Cost" change every row whose task
  id matches and no other row.
\<close>

theorem C10_lookups:
  "task_label df x =
     (case find (\<lambda>r. TASK_ID r = x) df of
        None \<Rightarrow> None
      | Some r \<Rightarrow> Some (x @ '' - '' @ TASK_NAME r))
   \<and> set_progress x p df =
     map (\<lambda>r. if TASK_ID r = x
               then r\<lparr>PROGRESS_NUM := Num (of_int p), PROGRESS := str_int p @ ''%'',
                      STATUS := (if p = 100 then ''Complete''
                                 else if 0 < p then ''In Progress'' else STATUS r)\<rparr>
               else r) df
   \<and> set_cost x c df = map (\<lambda>r. if TASK_ID r = x then r\<lparr>ACTUAL_COST := c\<rparr> else r) df"
  by (simp add: task_label_eq set_progress_eq set_cost_eq)

text \<open>
  The updates do not stop at the first match, as the specification has it: on a sheet
  where T1 occurs twice both updates also change the second row.
\<close>

theorem C10_update_changes_every_match:
  "map TASK_ID twice_df = [''T1'', ''T1'']
   \<and> map ACTUAL_COST twice_df = [0, 0]
   \<and> map ACTUAL_COST (set_cost ''T1'' 5000 twice_df) = [5000, 5000]
   \<and> map STATUS twice_df = [''Not Started'', ''Not Started'']
   \<and> map STATUS (set_progress ''T1'' 50 twice_df) = [''In Progress'', ''In Progress'']"
  by (simp add: twice_df_rows set_cost_eq set_progress_eq add_columns_def raw_row.extend_def
      cell_row_def)

end
